theory Spec2Isabelle
  imports Complex_Main "HOL-Library.Word"
begin

section \<open>Python primitives used by the service\<close>

text \<open>
  Strings are character lists. A Python \<open>float\<close> is modelled by the real number it
  denotes. The service does two things with floats. It parses decimal literals
  \<open>"major.minor"\<close> and compares them: parsing rounds to the nearest double, which
  keeps the order of the literals and keeps literals of at most 15 significant digits
  apart, so such comparisons are those of the reals. And it takes \<open>divmod\<close> of the
  elapsed seconds by 60 and 24, which is exact on non-negative doubles below \<open>2^53\<close>.
\<close>

type_synonym pyfloat = real

definition digit_char :: "nat \<Rightarrow> char" where
  "digit_char d = ''0123456789'' ! d"

definition digit_val :: "char \<Rightarrow> nat" where
  "digit_val c = length (takeWhile (\<lambda>d. d \<noteq> c) ''0123456789'')"

text \<open>\<open>str(n)\<close> and \<open>f"{n}"\<close> for a non-negative integer: its decimal digits.\<close>

fun str_nat :: "nat \<Rightarrow> string" where
  "str_nat n = (if n < 10 then [digit_char n] else str_nat (n div 10) @ [digit_char (n mod 10)])"

declare str_nat.simps [simp del]

text \<open>\<open>f"{i}"\<close> for any integer: a minus sign before the digits of a negative one.\<close>

definition str_int :: "int \<Rightarrow> string" where
  "str_int i = (if i < 0 then CHR ''-'' # str_nat (nat (- i)) else str_nat (nat i))"

text \<open>The value of a digit string, most significant digit first.\<close>

definition nat_of_digits :: "string \<Rightarrow> nat" where
  "nat_of_digits s = foldl (\<lambda>a c. 10 * a + digit_val c) 0 s"

text \<open>
  \<open>float(s)\<close> on the literals the service builds, \<open>digits "." digits\<close>: the integer part
  plus the fraction digits scaled by their count.
\<close>

definition float_of_str :: "string \<Rightarrow> pyfloat" where
  "float_of_str s =
     (let ip = takeWhile (\<lambda>c. c \<noteq> CHR ''.'') s;
          fp = drop (Suc (length ip)) s
      in real (nat_of_digits ip) + real (nat_of_digits fp) / 10 ^ length fp)"

text \<open>\<open>needle in haystack\<close> on strings: the needle occurs as a contiguous block.\<close>

fun str_contains :: "string \<Rightarrow> string \<Rightarrow> bool" where
  "str_contains needle [] = (needle = [])"
| "str_contains needle (c # cs) =
     (take (length needle) (c # cs) = needle \<or> str_contains needle cs)"

text \<open>
  \<open>s.isspace()\<close> on ASCII text: at least one character, all of them among tab, line
  feed, vertical tab, form feed, carriage return, the separators 28 to 31, and space.
\<close>

definition isspace :: "string \<Rightarrow> bool" where
  "isspace s \<longleftrightarrow>
     s \<noteq> [] \<and> list_all (\<lambda>c. of_char c \<in> {9, 10, 11, 12, 13, 28, 29, 30, 31, 32 :: nat}) s"

text \<open>
  \<open>str(uuid.uuid4())\<close> is 32 lowercase hexadecimal digits in groups of 8, 4, 4, 4 and 12,
  separated by hyphens. Which string it is, is up to the random source.
\<close>

definition hex_digit :: "char \<Rightarrow> bool" where
  "hex_digit c \<longleftrightarrow> c \<in> set ''0123456789abcdef''"

definition is_uuid_str :: "string \<Rightarrow> bool" where
  "is_uuid_str s \<longleftrightarrow>
     map (\<lambda>c. if c = CHR ''-'' then CHR ''-'' else if hex_digit c then CHR ''x'' else CHR ''?'') s
       = ''xxxxxxxx-xxxx-xxxx-xxxx-xxxxxxxxxxxx''"

text \<open>\<open>os.path.join(a, b)\<close> on POSIX.\<close>

definition path_join :: "string \<Rightarrow> string \<Rightarrow> string" where
  "path_join a b =
     (if take 1 b = ''/'' then b
      else if a = [] \<or> last a = CHR ''/'' then a @ b
      else a @ ''/'' @ b)"


section \<open>Device selection (module initialisation, lines 46-71)\<close>

record device_props =
  name :: string
  major :: nat
  minor :: nat

record selection =
  best_device_index :: nat
  best_capability :: pyfloat
  found_4060 :: bool

definition initial_selection :: selection where
  "initial_selection = \<lparr>best_device_index = 0, best_capability = - 1, found_4060 = False\<rparr>"

text \<open>\<open>float(f"{props.major}.{props.minor}")\<close>\<close>

definition current_capability :: "device_props \<Rightarrow> pyfloat" where
  "current_capability props = float_of_str (str_nat (major props) @ ''.'' @ str_nat (minor props))"

text \<open>
  The \<open>for i in range(device_count())\<close> loop, from index \<open>i\<close> over the properties of
  the remaining devices; the \<open>break\<close> is the branch without a recursive call.
\<close>

fun device_loop :: "nat \<Rightarrow> device_props list \<Rightarrow> selection \<Rightarrow> selection" where
  "device_loop i [] sel = sel"
| "device_loop i (props # rest) sel =
     (if str_contains ''4060'' (name props)
      then sel\<lparr>best_device_index := i, found_4060 := True\<rparr>
      else if current_capability props > best_capability sel
      then device_loop (Suc i) rest
             (sel\<lparr>best_capability := current_capability props, best_device_index := i\<rparr>)
      else device_loop (Suc i) rest sel)"

definition select_index :: "device_props list \<Rightarrow> nat" where
  "select_index devices = best_device_index (device_loop 0 devices initial_selection)"

text \<open>The module-level \<open>DEVICE\<close> string.\<close>

definition select_DEVICE :: "bool \<Rightarrow> device_props list \<Rightarrow> string" where
  "select_DEVICE cuda_available devices =
     (if cuda_available then ''cuda:'' @ str_nat (select_index devices) else ''cpu'')"

text \<open>
  The specification's reading of the fallback: capability versions are (major, minor)
  pairs, compared major first; the chosen index holds a pair that no device exceeds and
  that every earlier device is strictly below.
\<close>

definition version_less :: "device_props \<Rightarrow> device_props \<Rightarrow> bool" where
  "version_less a b \<longleftrightarrow> major a < major b \<or> (major a = major b \<and> minor a < minor b)"

definition highest_version_first :: "device_props list \<Rightarrow> nat \<Rightarrow> bool" where
  "highest_version_first devices r \<longleftrightarrow>
     r < length devices
     \<and> (\<forall>j < length devices. \<not> version_less (devices ! r) (devices ! j))
     \<and> (\<forall>j < r. version_less (devices ! j) (devices ! r))"

definition has_4060 :: "device_props \<Rightarrow> bool" where
  "has_4060 props = str_contains ''4060'' (name props)"


section \<open>Files, exceptions and the model handle\<close>

type_synonym path = string
type_synonym bytes = "8 word list"

text \<open>
  A call either returns a value or raises an \<open>Exception\<close>; the exception is kept as
  \<open>str(e)\<close>, the only thing the handlers read from it.
\<close>

datatype 'a outcome = Returned 'a | Raised string

text \<open>
  The filesystem: the content of every existing file, and for each path the message of
  the \<open>OSError\<close> (permissions, I/O) that reading or removing it would raise, if any.
\<close>

record filesystem =
  files :: "path \<rightharpoonup> bytes"
  read_error :: "path \<rightharpoonup> string"
  remove_error :: "path \<rightharpoonup> string"

text \<open>\<open>os.path.exists(p)\<close>\<close>

definition path_exists :: "filesystem \<Rightarrow> path \<Rightarrow> bool" where
  "path_exists fs p \<longleftrightarrow> files fs p \<noteq> None"

text \<open>The message of the \<open>FileNotFoundError\<close> raised for a missing path.\<close>

definition file_not_found :: "path \<Rightarrow> string" where
  "file_not_found p = ''[Errno 2] No such file or directory: '' @ [CHR 0x27] @ p @ [CHR 0x27]"

text \<open>\<open>with open(p, "rb") as f: f.read()\<close>\<close>

definition open_read :: "filesystem \<Rightarrow> path \<Rightarrow> bytes outcome" where
  "open_read fs p =
     (case files fs p of
        None \<Rightarrow> Raised (file_not_found p)
      | Some content \<Rightarrow>
          (case read_error fs p of Some msg \<Rightarrow> Raised msg | None \<Rightarrow> Returned content))"

text \<open>\<open>os.remove(p)\<close>\<close>

definition os_remove :: "filesystem \<Rightarrow> path \<Rightarrow> unit outcome \<times> filesystem" where
  "os_remove fs p =
     (case files fs p of
        None \<Rightarrow> (Raised (file_not_found p), fs)
      | Some content \<Rightarrow>
          (case remove_error fs p of
             Some msg \<Rightarrow> (Raised msg, fs)
           | None \<Rightarrow> (Returned (), fs\<lparr>files := (files fs)(p := None)\<rparr>)))"

text \<open>
  The loaded model is an external object; the service calls one method of it,
  \<open>tts_to_file(text, file_path, speaker_wav, language)\<close>, which may write files and
  may raise. Whatever it does is a parameter of the model below.
\<close>

record tts =
  tts_to_file :: "string \<Rightarrow> path \<Rightarrow> path \<Rightarrow> string \<Rightarrow> filesystem \<Rightarrow> unit outcome \<times> filesystem"


section \<open>Process-wide state (module globals)\<close>

record service =
  tts_model :: "tts option"
  DEVICE :: string
  START_TIME :: pyfloat
  module_dir :: path

definition DEFAULT_SPEAKER_PATH :: "service \<Rightarrow> path" where
  "DEFAULT_SPEAKER_PATH svc = path_join (path_join (module_dir svc) ''assets'') ''reference.wav''"

definition OUTPUT_DIR :: "service \<Rightarrow> path" where
  "OUTPUT_DIR svc = path_join (module_dir svc) ''output''"

text \<open>
  Importing the module: the model handle is unset, the device is selected, the start
  time is taken. \<open>dir\<close> is \<open>os.path.dirname(__file__)\<close>.
\<close>

definition module_init :: "bool \<Rightarrow> device_props list \<Rightarrow> pyfloat \<Rightarrow> path \<Rightarrow> service" where
  "module_init cuda_available devices now dir =
     \<lparr>tts_model = None, DEVICE = select_DEVICE cuda_available devices,
      START_TIME = now, module_dir = dir\<rparr>"

text \<open>
  The startup half of \<open>lifespan\<close>. \<open>load name device\<close> stands for the body of the
  \<open>try\<close>: importing the library and evaluating \<open>TTS(name).to(device)\<close>.
\<close>

definition lifespan :: "(string \<Rightarrow> string \<Rightarrow> tts outcome) \<Rightarrow> service \<Rightarrow> service" where
  "lifespan load svc =
     (case load ''tts_models/multilingual/multi-dataset/xtts_v2'' (DEVICE svc) of
        Returned model \<Rightarrow> svc\<lparr>tts_model := Some model\<rparr>
      | Raised e \<Rightarrow> svc\<lparr>tts_model := None\<rparr>)"


section \<open>Requests and responses\<close>

record GenerateRequest =
  text' :: string
  language :: string
  speaker_wav :: path

text \<open>
  The field \<open>text\<close> of the source is \<open>text'\<close> here. A request body that gives only the
  text takes the defaults for the other fields.
\<close>

definition text_only_request :: "service \<Rightarrow> string \<Rightarrow> GenerateRequest" where
  "text_only_request svc t = \<lparr>text' = t, language = ''en'', speaker_wav = DEFAULT_SPEAKER_PATH svc\<rparr>"

datatype response =
    HTTPException nat string
  | Response bytes string
  | JSONResponse nat "(string \<times> string) list"

fun status_code :: "response \<Rightarrow> nat" where
  "status_code (HTTPException code detail) = code"
| "status_code (Response content media_type) = 200"
| "status_code (JSONResponse code content) = code"


section \<open>GET /health\<close>

definition health_check :: "service \<Rightarrow> response" where
  "health_check svc =
     (case tts_model svc of
        None \<Rightarrow> JSONResponse 503 [(''status'', ''error''), (''detail'', ''Model not loaded'')]
      | Some model \<Rightarrow>
          JSONResponse 200 [(''status'', ''ok''), (''device'', DEVICE svc), (''model'', ''xtts_v2'')])"


section \<open>GET /service: the uptime string\<close>

text \<open>\<open>divmod(x, y)\<close> on floats, for the positive divisors 60 and 24 the service uses.\<close>

definition divmod_float :: "pyfloat \<Rightarrow> pyfloat \<Rightarrow> pyfloat \<times> pyfloat" where
  "divmod_float x y = (of_int \<lfloor>x / y\<rfloor>, x - y * of_int \<lfloor>x / y\<rfloor>)"

text \<open>\<open>int(x)\<close> on a float truncates towards zero.\<close>

definition int_of_float :: "pyfloat \<Rightarrow> int" where
  "int_of_float x = (if 0 \<le> x then \<lfloor>x\<rfloor> else \<lceil>x\<rceil>)"

definition uptime_str :: "pyfloat \<Rightarrow> string" where
  "uptime_str uptime_seconds =
     (let (m, s) = divmod_float uptime_seconds 60;
          (h, m) = divmod_float m 60;
          (d, h) = divmod_float h 24
      in if d > 0
         then str_int (int_of_float d) @ ''d '' @ str_int (int_of_float h) @ ''h ''
              @ str_int (int_of_float m) @ ''m '' @ str_int (int_of_float s) @ ''s''
         else str_int (int_of_float h) @ ''h '' @ str_int (int_of_float m) @ ''m ''
              @ str_int (int_of_float s) @ ''s'')"

text \<open>The health block of the status report at time \<open>now\<close>.\<close>

definition service_health :: "service \<Rightarrow> pyfloat \<Rightarrow> (string \<times> string) list" where
  "service_health svc now =
     [(''status'', if tts_model svc \<noteq> None then ''OK'' else ''ERROR''),
      (''uptime'', uptime_str (now - START_TIME svc))]"


section \<open>POST /generate\<close>

text \<open>
  The body of the \<open>try\<close> block, for a loaded model: synthesise to
  \<open>OUTPUT_DIR/<uuid4>.wav\<close>, read the file back, remove it. The first call that raises
  ends the block; the filesystem is returned as that call left it.
\<close>

definition output_path :: "service \<Rightarrow> string \<Rightarrow> path" where
  "output_path svc uuid4 = path_join (OUTPUT_DIR svc) (uuid4 @ ''.wav'')"

definition synthesize :: "tts \<Rightarrow> service \<Rightarrow> string \<Rightarrow> GenerateRequest \<Rightarrow> filesystem
                           \<Rightarrow> bytes outcome \<times> filesystem" where
  "synthesize model svc uuid4 request fs =
     (case tts_to_file model (text' request) (output_path svc uuid4) (speaker_wav request)
             (language request) fs of
        (Raised e, fs1) \<Rightarrow> (Raised e, fs1)
      | (Returned u, fs1) \<Rightarrow>
          (case open_read fs1 (output_path svc uuid4) of
             Raised e \<Rightarrow> (Raised e, fs1)
           | Returned audio_data \<Rightarrow>
               (case os_remove fs1 (output_path svc uuid4) of
                  (Raised e, fs2) \<Rightarrow> (Raised e, fs2)
                | (Returned u', fs2) \<Rightarrow> (Returned audio_data, fs2))))"

text \<open>
  The handler, with the three checks in the order of the source; \<open>uuid4\<close> is the
  string \<open>uuid.uuid4()\<close> yields for this request.
\<close>

definition generate_audio :: "service \<Rightarrow> string \<Rightarrow> GenerateRequest \<Rightarrow> filesystem
                               \<Rightarrow> response \<times> filesystem" where
  "generate_audio svc uuid4 request fs =
     (case tts_model svc of
        None \<Rightarrow> (HTTPException 503 ''TTS model is not available.'', fs)
      | Some model \<Rightarrow>
          if text' request = [] then (HTTPException 400 ''Text is required.'', fs)
          else if \<not> path_exists fs (speaker_wav request) then
            (if speaker_wav request = DEFAULT_SPEAKER_PATH svc
             then (HTTPException 500
                     (''Default reference voice not found at '' @ DEFAULT_SPEAKER_PATH svc
                      @ ''. Please add a reference.wav file.''), fs)
             else (HTTPException 400
                     (''Speaker wav file not found: '' @ speaker_wav request), fs))
          else
            (case synthesize model svc uuid4 request fs of
               (Returned audio_data, fs') \<Rightarrow> (Response audio_data ''audio/wav'', fs')
             | (Raised e, fs') \<Rightarrow> (HTTPException 500 e, fs')))"


section \<open>Concrete scenarios\<close>

text \<open>Two devices without the preferred name; the second has the higher version pair.\<close>

definition two_gpus :: "device_props list" where
  "two_gpus = [\<lparr>name = ''GPU A'', major = 8, minor = 9\<rparr>, \<lparr>name = ''GPU B'', major = 8, minor = 10\<rparr>]"

text \<open>Four devices without the preferred name; the highest version occurs twice.\<close>

definition four_gpus :: "device_props list" where
  "four_gpus =
     [\<lparr>name = ''Tesla T4'', major = 7, minor = 5\<rparr>,
      \<lparr>name = ''NVIDIA L4'', major = 8, minor = 9\<rparr>,
      \<lparr>name = ''NVIDIA A10'', major = 8, minor = 6\<rparr>,
      \<lparr>name = ''NVIDIA L40'', major = 8, minor = 9\<rparr>]"

text \<open>Three devices; the preferred name is on the one with the lowest version.\<close>

definition three_gpus :: "device_props list" where
  "three_gpus =
     [\<lparr>name = ''NVIDIA H100'', major = 9, minor = 0\<rparr>,
      \<lparr>name = ''NVIDIA GeForce RTX 4060 Ti'', major = 8, minor = 9\<rparr>,
      \<lparr>name = ''NVIDIA GeForce RTX 4060'', major = 8, minor = 9\<rparr>]"

text \<open>A model that writes four bytes to the requested file, and one that always fails.\<close>

definition writing_model :: tts where
  "writing_model =
     \<lparr>tts_to_file = (\<lambda>t file_path spk lang fs.
        (Returned (), fs\<lparr>files := (files fs)(file_path \<mapsto> [0x52, 0x49, 0x46, 0x46])\<rparr>))\<rparr>"

definition failing_model :: tts where
  "failing_model =
     \<lparr>tts_to_file = (\<lambda>t file_path spk lang fs.
        (Raised ''CUDA out of memory'',
         fs\<lparr>files := (files fs)(file_path \<mapsto> [0x52])\<rparr>))\<rparr>"

text \<open>A filesystem holding the bundled reference voice of a service installed in \<open>/srv\<close>.\<close>

definition disk :: filesystem where
  "disk = \<lparr>files = [''/srv/assets/reference.wav'' \<mapsto> [1, 2, 3]],
           read_error = Map.empty, remove_error = Map.empty\<rparr>"

definition empty_disk :: filesystem where
  "empty_disk = \<lparr>files = Map.empty, read_error = Map.empty, remove_error = Map.empty\<rparr>"

text \<open>The disk with the reference voice, where reading or removing the artifact of request
  \<open>u1\<close> is refused.\<close>

definition unreadable_disk :: filesystem where
  "unreadable_disk = disk\<lparr>read_error := [''/srv/output/u1.wav'' \<mapsto> ''[Errno 13] Permission denied'']\<rparr>"

definition undeletable_disk :: filesystem where
  "undeletable_disk = disk\<lparr>remove_error := [''/srv/output/u1.wav'' \<mapsto> ''[Errno 13] Permission denied'']\<rparr>"

definition unloaded :: service where
  "unloaded = module_init True three_gpus 1000 ''/srv''"

definition loaded :: service where
  "loaded = unloaded\<lparr>tts_model := Some writing_model\<rparr>"

definition loaded_failing :: service where
  "loaded_failing = unloaded\<lparr>tts_model := Some failing_model\<rparr>"

text \<open>
  Two requests in flight: the uuids drawn for them, and a disk that already holds the
  artifact of the second.
\<close>

definition uuid_a :: string where
  "uuid_a = ''3f2b8c1e-9d4a-4f6b-8a7c-1e2d3c4b5a69''"

definition uuid_b :: string where
  "uuid_b = ''3f2b8c1e-9d4a-4f6b-8a7c-1e2d3c4b5a68''"

definition busy_disk :: filesystem where
  "busy_disk = disk\<lparr>files := (files disk)(''/srv/output/'' @ uuid_b @ ''.wav'' \<mapsto> [7, 7])\<rparr>"

definition custom_voice_request :: GenerateRequest where
  "custom_voice_request = \<lparr>text' = '' '', language = ''en'', speaker_wav = ''/home/me/voice.wav''\<rparr>"

text \<open>Loaders for startup: one that raises, one that returns the writing model.\<close>

definition failing_load :: "string \<Rightarrow> string \<Rightarrow> tts outcome" where
  "failing_load model_name device = Raised ''weights not found''"

definition working_load :: "string \<Rightarrow> string \<Rightarrow> tts outcome" where
  "working_load model_name device = Returned writing_model"


section \<open>Decimal strings\<close>

lemma digit_cases: "d < 10 \<Longrightarrow> d \<in> {0, 1, 2, 3, 4, 5, 6, 7, 8, 9::nat}"
  by auto

lemma digit_val_digit_char: "d < 10 \<Longrightarrow> digit_val (digit_char d) = d"
  using digit_cases [of d] by (auto simp: digit_val_def digit_char_def)

lemma digit_char_not_dot: "d < 10 \<Longrightarrow> digit_char d \<noteq> CHR ''.''"
  using digit_cases [of d] by (auto simp: digit_char_def)

lemma nat_of_digits_snoc: "nat_of_digits (s @ [c]) = 10 * nat_of_digits s + digit_val c"
  by (simp add: nat_of_digits_def)

lemma nat_of_digits_str_nat: "nat_of_digits (str_nat n) = n"
proof (induction n rule: str_nat.induct)
  case (1 n)
  show ?case
  proof (cases "n < 10")
    case True
    then show ?thesis
      by (subst str_nat.simps) (simp add: nat_of_digits_def digit_val_digit_char)
  next
    case False
    then show ?thesis
      using "1.IH" by (subst str_nat.simps) (simp add: nat_of_digits_snoc digit_val_digit_char)
  qed
qed

lemma str_nat_no_dot: "CHR ''.'' \<notin> set (str_nat n)"
proof (induction n rule: str_nat.induct)
  case (1 n)
  show ?case
  proof (cases "n < 10")
    case True
    then show ?thesis
      using digit_char_not_dot [of n] by (subst str_nat.simps) auto
  next
    case False
    then show ?thesis
      using "1.IH" digit_char_not_dot [of "n mod 10"] by (subst str_nat.simps) auto
  qed
qed

lemma takeWhile_upto_char:
  "c \<notin> set xs \<Longrightarrow> takeWhile (\<lambda>d. d \<noteq> c) (xs @ c # ys) = xs"
  by (induction xs) auto

lemma current_capability_value:
  "current_capability props =
     real (major props) + real (minor props) / 10 ^ length (str_nat (minor props))"
proof -
  have "takeWhile (\<lambda>c. c \<noteq> CHR ''.'') (str_nat (major props) @ ''.'' @ str_nat (minor props))
          = str_nat (major props)"
    using takeWhile_upto_char [OF str_nat_no_dot [of "major props"]] by simp
  then show ?thesis
    by (simp add: current_capability_def float_of_str_def Let_def nat_of_digits_str_nat)
qed

lemma current_capability_nonneg: "0 \<le> current_capability props"
  by (simp add: current_capability_value)

lemma current_capability_single_digit:
  "minor props < 10 \<Longrightarrow> current_capability props = real (major props) + real (minor props) / 10"
  by (simp add: current_capability_value str_nat.simps)

lemma capability_order_single_digit:
  assumes "minor a < 10" "minor b < 10"
  shows "current_capability a < current_capability b \<longleftrightarrow> version_less a b"
proof -
  have "current_capability a < current_capability b
          \<longleftrightarrow> 10 * real (major a) + real (minor a) < 10 * real (major b) + real (minor b)"
    unfolding current_capability_single_digit [OF assms(1)] current_capability_single_digit [OF assms(2)]
    by argo
  also have "\<dots> \<longleftrightarrow> 10 * major a + minor a < 10 * major b + minor b"
    by (metis (mono_tags) of_nat_add of_nat_less_iff of_nat_mult of_nat_numeral)
  also have "\<dots> \<longleftrightarrow> version_less a b"
    using assms unfolding version_less_def by arith
  finally show ?thesis .
qed


section \<open>The device loop\<close>

lemma device_loop_preferred:
  "\<exists>p \<in> set ds. has_4060 p \<Longrightarrow>
   best_device_index (device_loop i ds sel) = i + length (takeWhile (\<lambda>p. \<not> has_4060 p) ds)
   \<and> found_4060 (device_loop i ds sel)"
proof (induction ds arbitrary: i sel)
  case Nil
  then show ?case by simp
next
  case (Cons p ds)
  show ?case
  proof (cases "has_4060 p")
    case True
    then show ?thesis by (simp add: has_4060_def)
  next
    case False
    with Cons.prems have ex: "\<exists>q \<in> set ds. has_4060 q" by auto
    from False show ?thesis
      using Cons.IH [OF ex] by (simp add: has_4060_def)
  qed
qed

lemma first_match_index:
  "\<exists>p \<in> set ds. P p \<Longrightarrow>
   length (takeWhile (\<lambda>p. \<not> P p) ds) < length ds
   \<and> P (ds ! length (takeWhile (\<lambda>p. \<not> P p) ds))
   \<and> (\<forall>j < length (takeWhile (\<lambda>p. \<not> P p) ds). \<not> P (ds ! j))"
proof (induction ds)
  case Nil
  then show ?case by simp
next
  case (Cons p ds)
  show ?case
  proof (cases "P p")
    case True
    then show ?thesis by simp
  next
    case False
    with Cons.prems have "\<exists>q \<in> set ds. P q" by auto
    from Cons.IH [OF this] False show ?thesis
      by (simp add: nth_Cons') 
  qed
qed

lemma device_loop_fallback:
  assumes "\<forall>p \<in> set ds. \<not> has_4060 p"
  shows "(\<forall>p \<in> set ds. current_capability p \<le> best_capability (device_loop i ds sel))
       \<and> best_capability sel \<le> best_capability (device_loop i ds sel)
       \<and> (if \<exists>p \<in> set ds. best_capability sel < current_capability p
          then \<exists>k < length ds.
                 best_device_index (device_loop i ds sel) = i + k
                 \<and> current_capability (ds ! k) = best_capability (device_loop i ds sel)
                 \<and> (\<forall>j < k. current_capability (ds ! j) < best_capability (device_loop i ds sel))
          else device_loop i ds sel = sel)"
  using assms
proof (induction ds arbitrary: i sel)
  case Nil
  then show ?case by simp
next
  case (Cons p ds)
  from Cons.prems have np: "\<not> str_contains ''4060'' (name p)" and rest: "\<forall>q \<in> set ds. \<not> has_4060 q"
    by (simp_all add: has_4060_def)
  show ?case
  proof (cases "best_capability sel < current_capability p")
    case True
    define sel' where "sel' = sel\<lparr>best_capability := current_capability p, best_device_index := i\<rparr>"
    define r where "r = device_loop (Suc i) ds sel'"
    have step: "device_loop i (p # ds) sel = r"
      using np True by (simp add: r_def sel'_def)
    have bc': "best_capability sel' = current_capability p" by (simp add: sel'_def)
    note IH = Cons.IH [OF rest, of "Suc i" sel', folded r_def, unfolded bc']
    from IH have ub: "\<forall>q \<in> set ds. current_capability q \<le> best_capability r"
      and mono: "current_capability p \<le> best_capability r" by simp_all
    have idx: "\<exists>k < length (p # ds). best_device_index r = i + k
                 \<and> current_capability ((p # ds) ! k) = best_capability r
                 \<and> (\<forall>j < k. current_capability ((p # ds) ! j) < best_capability r)"
    proof (cases "\<exists>q \<in> set ds. current_capability p < current_capability q")
      case True
      with IH obtain k where k: "k < length ds" "best_device_index r = Suc i + k"
          "current_capability (ds ! k) = best_capability r"
          "\<forall>j < k. current_capability (ds ! j) < best_capability r"
        by auto
      from True ub have "current_capability p < best_capability r" by fastforce
      with k have "Suc k < length (p # ds) \<and> best_device_index r = i + Suc k
                 \<and> current_capability ((p # ds) ! Suc k) = best_capability r
                 \<and> (\<forall>j < Suc k. current_capability ((p # ds) ! j) < best_capability r)"
        by (auto simp: nth_Cons')
      then show ?thesis by blast
    next
      case False
      with IH have "r = sel'" by simp
      then have "0 < length (p # ds) \<and> best_device_index r = i + 0
                 \<and> current_capability ((p # ds) ! 0) = best_capability r
                 \<and> (\<forall>j < 0. current_capability ((p # ds) ! j) < best_capability r)"
        by (simp add: sel'_def)
      then show ?thesis by blast
    qed
    from True have "\<exists>q \<in> set (p # ds). best_capability sel < current_capability q" by simp
    with idx ub mono True show ?thesis
      unfolding step by auto
  next
    case False
    define r where "r = device_loop (Suc i) ds sel"
    have step: "device_loop i (p # ds) sel = r"
      using np False by (simp add: r_def)
    note IH = Cons.IH [OF rest, of "Suc i" sel, folded r_def]
    from IH have ub: "\<forall>q \<in> set ds. current_capability q \<le> best_capability r"
      and mono: "best_capability sel \<le> best_capability r" by simp_all
    show ?thesis
    proof (cases "\<exists>q \<in> set ds. best_capability sel < current_capability q")
      case True
      with IH obtain k where k: "k < length ds" "best_device_index r = Suc i + k"
          "current_capability (ds ! k) = best_capability r"
          "\<forall>j < k. current_capability (ds ! j) < best_capability r"
        by auto
      from True ub have "best_capability sel < best_capability r" by fastforce
      with False have "current_capability p < best_capability r" by simp
      with k have "Suc k < length (p # ds) \<and> best_device_index r = i + Suc k
                 \<and> current_capability ((p # ds) ! Suc k) = best_capability r
                 \<and> (\<forall>j < Suc k. current_capability ((p # ds) ! j) < best_capability r)"
        by (auto simp: nth_Cons')
      then have "\<exists>k < length (p # ds). best_device_index r = i + k
                 \<and> current_capability ((p # ds) ! k) = best_capability r
                 \<and> (\<forall>j < k. current_capability ((p # ds) ! j) < best_capability r)"
        by blast
      moreover from True have "\<exists>q \<in> set (p # ds). best_capability sel < current_capability q" by simp
      ultimately show ?thesis
        using ub mono False unfolding step by auto
    next
      case nex: False
      with IH have "r = sel" by simp
      moreover from nex False have "\<not> (\<exists>q \<in> set (p # ds). best_capability sel < current_capability q)"
        by simp
      ultimately show ?thesis
        using ub mono False unfolding step by auto
    qed
  qed
qed

lemma select_index_highest_capability:
  assumes "devices \<noteq> []" and "\<forall>p \<in> set devices. \<not> has_4060 p"
  shows "select_index devices < length devices
       \<and> (\<forall>j < length devices.
             current_capability (devices ! j) \<le> current_capability (devices ! select_index devices))
       \<and> (\<forall>j < select_index devices.
             current_capability (devices ! j) < current_capability (devices ! select_index devices))"
proof -
  from assms(1) obtain p where p: "p \<in> set devices" by (cases devices) auto
  have "best_capability initial_selection < current_capability p"
    using current_capability_nonneg [of p] by (simp add: initial_selection_def)
  with p have ex: "\<exists>p \<in> set devices. best_capability initial_selection < current_capability p" by blast
  from device_loop_fallback [OF assms(2), of 0 initial_selection] ex
  obtain k where k: "k < length devices" "select_index devices = k"
      "current_capability (devices ! k) = best_capability (device_loop 0 devices initial_selection)"
      "\<forall>j < k. current_capability (devices ! j) < best_capability (device_loop 0 devices initial_selection)"
      and ub: "\<forall>p \<in> set devices. current_capability p \<le> best_capability (device_loop 0 devices initial_selection)"
    by (auto simp: select_index_def)
  from ub have "\<forall>j < length devices. current_capability (devices ! j) \<le> best_capability (device_loop 0 devices initial_selection)"
    by simp
  with k show ?thesis by simp
qed

lemma two_gpus_capabilities:
  "current_capability (two_gpus ! 0) = 89 / 10 \<and> current_capability (two_gpus ! 1) = 81 / 10"
  by (simp add: two_gpus_def current_capability_value str_nat.simps)

text \<open>
  The loop ranks a device by the decimal number \<open>major.minor\<close>, so a minor version of
  two digits would rank below a larger single digit: 8.10 reads as 8.1, below 8.9.
  CUDA compute capabilities have one-digit minor versions; the lemma marks the edge of
  the theorem that follows.
\<close>

lemma two_digit_minor_ranking:
  "select_index two_gpus = 0
   \<and> length two_gpus = 2
   \<and> \<not> has_4060 (two_gpus ! 0) \<and> \<not> has_4060 (two_gpus ! 1)
   \<and> version_less (two_gpus ! 0) (two_gpus ! 1)
   \<and> current_capability (two_gpus ! 1) < current_capability (two_gpus ! 0)"
proof -
  have caps: "current_capability \<lparr>name = ''GPU A'', major = 8, minor = 9\<rparr> = 89 / 10"
             "current_capability \<lparr>name = ''GPU B'', major = 8, minor = 10\<rparr> = 81 / 10"
    using two_gpus_capabilities by (simp_all add: two_gpus_def)
  have "select_index two_gpus = 0"
    by (simp add: select_index_def two_gpus_def initial_selection_def caps)
  moreover have "\<not> has_4060 (two_gpus ! 0) \<and> \<not> has_4060 (two_gpus ! 1)"
    by (simp add: has_4060_def two_gpus_def)
  moreover have "version_less (two_gpus ! 0) (two_gpus ! 1)"
    by (simp add: version_less_def two_gpus_def)
  ultimately show ?thesis
    using two_gpus_capabilities by (simp add: two_gpus_def)
qed

text \<open>
  C1. For a non-empty list of CUDA devices (minor versions of one digit) none of whose
  names contains "4060", the selected index holds a (major, minor) pair that no device
  of the list exceeds, and every earlier device is strictly below it: the strictly
  highest capability version, the earliest index on ties.
\<close>

theorem fallback_selects_highest_version:
  assumes "devices \<noteq> []" and "\<forall>p \<in> set devices. \<not> has_4060 p"
    and "\<forall>p \<in> set devices. minor p < 10"
  shows "highest_version_first devices (select_index devices)"
proof -
  note h = select_index_highest_capability [OF assms(1,2)]
  have sd: "\<And>j. j < length devices \<Longrightarrow> minor (devices ! j) < 10"
    using assms(3) by simp
  from h have r: "select_index devices < length devices" by simp
  have a: "\<forall>j < length devices. \<not> version_less (devices ! select_index devices) (devices ! j)"
  proof (intro allI impI)
    fix j assume j: "j < length devices"
    with h have "\<not> current_capability (devices ! select_index devices) < current_capability (devices ! j)"
      by (simp add: not_less)
    then show "\<not> version_less (devices ! select_index devices) (devices ! j)"
      using capability_order_single_digit [OF sd [OF r] sd [OF j]] by simp
  qed
  have b: "\<forall>j < select_index devices. version_less (devices ! j) (devices ! select_index devices)"
  proof (intro allI impI)
    fix j assume j: "j < select_index devices"
    with r have jl: "j < length devices" by simp
    from j h have "current_capability (devices ! j) < current_capability (devices ! select_index devices)"
      by simp
    then show "version_less (devices ! j) (devices ! select_index devices)"
      using capability_order_single_digit [OF sd [OF jl] sd [OF r]] by simp
  qed
  from r a b show ?thesis by (simp add: highest_version_first_def)
qed

theorem fallback_selects_highest_version_witness:
  "select_index four_gpus = 1
   \<and> highest_version_first four_gpus 1
   \<and> version_less (four_gpus ! 0) (four_gpus ! 1)
   \<and> \<not> version_less (four_gpus ! 1) (four_gpus ! 3)
   \<and> select_DEVICE True four_gpus = ''cuda:1''"
proof -
  have ne: "four_gpus \<noteq> []"
    by (simp add: four_gpus_def)
  have no: "\<forall>p \<in> set four_gpus. \<not> has_4060 p"
    by (simp add: four_gpus_def has_4060_def)
  have sd: "\<forall>p \<in> set four_gpus. minor p < 10"
    by (simp add: four_gpus_def)
  have idx: "select_index four_gpus = 1"
    by (simp add: select_index_def four_gpus_def initial_selection_def current_capability_value
          str_nat.simps)
  from fallback_selects_highest_version [OF ne no sd]
  have "highest_version_first four_gpus 1"
    unfolding idx .
  moreover have "version_less (four_gpus ! 0) (four_gpus ! 1)"
    and "\<not> version_less (four_gpus ! 1) (four_gpus ! 3)"
    by (simp_all add: version_less_def four_gpus_def)
  ultimately show ?thesis
    using idx by (simp add: select_DEVICE_def str_nat.simps digit_char_def)
qed

text \<open>
  C2. When some device name contains "4060", the selected index is that of the first
  such device in enumeration order, whatever the capability versions are, and the loop
  records that the preferred device was found.
\<close>

theorem preferred_device_selected:
  assumes "\<exists>p \<in> set devices. has_4060 p"
  shows "select_index devices < length devices
         \<and> has_4060 (devices ! select_index devices)
         \<and> (\<forall>j < select_index devices. \<not> has_4060 (devices ! j))
         \<and> found_4060 (device_loop 0 devices initial_selection)"
  using device_loop_preferred [OF assms, of 0 initial_selection] first_match_index [of devices has_4060, OF assms]
  by (simp add: select_index_def)

theorem preferred_device_selected_witness:
  "select_index three_gpus = 1
   \<and> has_4060 (three_gpus ! 1)
   \<and> \<not> has_4060 (three_gpus ! 0)
   \<and> version_less (three_gpus ! 1) (three_gpus ! 0)
   \<and> select_DEVICE True three_gpus = ''cuda:1''"
proof -
  have h: "\<exists>p \<in> set three_gpus. has_4060 p"
    by (simp add: three_gpus_def has_4060_def)
  have first: "\<not> has_4060 (three_gpus ! 0)" and second: "has_4060 (three_gpus ! 1)"
    by (simp_all add: three_gpus_def has_4060_def)
  from preferred_device_selected [OF h]
  have r: "has_4060 (three_gpus ! select_index three_gpus)"
    and before: "\<forall>j < select_index three_gpus. \<not> has_4060 (three_gpus ! j)"
    by simp_all
  from before second have "\<not> 1 < select_index three_gpus" by blast
  moreover from r first have "select_index three_gpus \<noteq> 0" by metis
  ultimately have idx: "select_index three_gpus = 1" by arith
  have "version_less (three_gpus ! 1) (three_gpus ! 0)"
    by (simp add: version_less_def three_gpus_def)
  with idx first second show ?thesis
    by (simp add: select_DEVICE_def str_nat.simps digit_char_def)
qed


section \<open>The synthesis handler\<close>

lemma synthesize_cases:
  assumes "tts_to_file model (text' request) (output_path svc uuid4) (speaker_wav request)
             (language request) fs = (r, fs1)"
  shows "synthesize model svc uuid4 request fs =
           (case r of
              Raised e \<Rightarrow> (Raised e, fs1)
            | Returned u \<Rightarrow>
                (case open_read fs1 (output_path svc uuid4) of
                   Raised e \<Rightarrow> (Raised e, fs1)
                 | Returned audio_data \<Rightarrow>
                     (case os_remove fs1 (output_path svc uuid4) of
                        (Raised e, fs2) \<Rightarrow> (Raised e, fs2)
                      | (Returned u', fs2) \<Rightarrow> (Returned audio_data, fs2))))"
  using assms by (simp add: synthesize_def split: outcome.splits)

lemma os_remove_raises: "fst (os_remove fs p) = Raised e \<Longrightarrow> snd (os_remove fs p) = fs"
  by (auto simp: os_remove_def split: option.splits)

lemma os_remove_returns:
  "fst (os_remove fs p) = Returned u \<Longrightarrow> snd (os_remove fs p) = fs\<lparr>files := (files fs)(p := None)\<rparr>"
  by (auto simp: os_remove_def split: option.splits)

lemma open_read_returns: "open_read fs p = Returned content \<Longrightarrow> files fs p = Some content"
  by (auto simp: open_read_def split: option.splits)

lemma os_remove_frame: "p \<noteq> q \<Longrightarrow> files (snd (os_remove fs q)) p = files fs p"
  by (simp add: os_remove_def split: option.splits)

lemma uuid_not_absolute: "is_uuid_str u \<Longrightarrow> take 1 (u @ ''.wav'') \<noteq> ''/''"
proof -
  assume u: "is_uuid_str u"
  then obtain c cs where ccs: "u = c # cs"
    by (cases u) (auto simp: is_uuid_str_def)
  with u have "hex_digit c"
    by (auto simp: is_uuid_str_def split: if_splits)
  then have "c \<noteq> CHR ''/''"
    by (auto simp: hex_digit_def)
  with ccs show ?thesis by simp
qed

lemma output_path_inj:
  assumes "is_uuid_str u" and "is_uuid_str v" and "output_path svc u = output_path svc v"
  shows "u = v"
proof -
  define pre where "pre = (if OUTPUT_DIR svc = [] \<or> last (OUTPUT_DIR svc) = CHR ''/''
                           then OUTPUT_DIR svc else OUTPUT_DIR svc @ ''/'')"
  have "output_path svc w = pre @ w @ ''.wav''" if "is_uuid_str w" for w
    using uuid_not_absolute [OF that]
    by (simp add: output_path_def path_join_def pre_def)
  with assms show ?thesis by simp
qed

lemma generate_audio_validated:
  assumes "tts_model svc = Some model" and "text' request \<noteq> []"
    and "path_exists fs (speaker_wav request)"
  shows "generate_audio svc uuid4 request fs =
           (case synthesize model svc uuid4 request fs of
              (Returned audio_data, fs') \<Rightarrow> (Response audio_data ''audio/wav'', fs')
            | (Raised e, fs') \<Rightarrow> (HTTPException 500 e, fs'))"
  using assms by (simp add: generate_audio_def)

lemma loaded_paths:
  "output_path loaded ''u1'' = ''/srv/output/u1.wav''"
  "output_path loaded_failing ''u1'' = ''/srv/output/u1.wav''"
  "DEFAULT_SPEAKER_PATH loaded = ''/srv/assets/reference.wav''"
  "DEFAULT_SPEAKER_PATH loaded_failing = ''/srv/assets/reference.wav''"
  by (simp_all add: output_path_def OUTPUT_DIR_def DEFAULT_SPEAKER_PATH_def path_join_def
        loaded_def loaded_failing_def unloaded_def module_init_def)

lemma hello_request:
  "text_only_request loaded ''hello''
     = \<lparr>text' = ''hello'', language = ''en'', speaker_wav = ''/srv/assets/reference.wav''\<rparr>"
  by (simp add: text_only_request_def loaded_paths)

text \<open>
  C3. While the model handle is unset the handler answers 503, whatever text, language
  and speaker path the request carries, and leaves the filesystem as it was.
\<close>

theorem generate_unavailable_without_model:
  assumes "tts_model svc = None"
  shows "generate_audio svc uuid4 request fs = (HTTPException 503 ''TTS model is not available.'', fs)
         \<and> status_code (fst (generate_audio svc uuid4 request fs)) = 503"
  using assms by (simp add: generate_audio_def)

theorem generate_unavailable_without_model_witness:
  "tts_model unloaded = None
   \<and> status_code (fst (generate_audio unloaded ''u1'' (text_only_request unloaded ''hello'') disk)) = 503
   \<and> status_code (fst (generate_audio unloaded ''u1'' custom_voice_request empty_disk)) = 503"
proof -
  have h: "tts_model unloaded = None"
    by (simp add: unloaded_def module_init_def)
  from generate_unavailable_without_model [OF h] h show ?thesis by simp
qed

text \<open>
  C4, as stated, fails: the check of the model handle comes first, so a request with
  empty text that arrives while the model is unset is answered 503, not 400.
\<close>

theorem empty_text_unloaded_gives_503:
  "text' (text_only_request unloaded '''') = ''''
   \<and> status_code (fst (generate_audio unloaded ''u1'' (text_only_request unloaded '''') disk)) = 503
   \<and> status_code (fst (generate_audio unloaded ''u1'' (text_only_request unloaded '''') disk)) \<noteq> 400"
  by (simp add: generate_audio_def unloaded_def module_init_def text_only_request_def)

text \<open>
  C4, amended. For every request with empty text handled while the model handle is set,
  the handler answers 400 with the detail "Text is required." and touches no file.
\<close>

theorem empty_text_rejected:
  assumes "tts_model svc = Some model" and "text' request = []"
  shows "generate_audio svc uuid4 request fs = (HTTPException 400 ''Text is required.'', fs)
         \<and> status_code (fst (generate_audio svc uuid4 request fs)) = 400"
  using assms by (simp add: generate_audio_def)

theorem empty_text_rejected_witness:
  "tts_model loaded = Some writing_model
   \<and> text' (text_only_request loaded '''') = ''''
   \<and> status_code (fst (generate_audio loaded ''u1'' (text_only_request loaded '''') disk)) = 400"
proof -
  have m: "tts_model loaded = Some writing_model" by (simp add: loaded_def)
  have t: "text' (text_only_request loaded '''') = []" by (simp add: text_only_request_def)
  from empty_text_rejected [OF m t] m t show ?thesis by simp
qed

text \<open>
  C5. Model loaded, text non-empty, speaker path absent from the filesystem: the answer
  is 500 when the path is the bundled default and 400 for any other path; no file is
  touched.
\<close>

theorem missing_speaker_rejected:
  assumes "tts_model svc = Some model" and "text' request \<noteq> []"
    and "\<not> path_exists fs (speaker_wav request)"
  shows "status_code (fst (generate_audio svc uuid4 request fs))
           = (if speaker_wav request = DEFAULT_SPEAKER_PATH svc then 500 else 400)
         \<and> snd (generate_audio svc uuid4 request fs) = fs"
  using assms by (simp add: generate_audio_def)

theorem missing_speaker_rejected_witness:
  "speaker_wav (text_only_request loaded ''hello'') = DEFAULT_SPEAKER_PATH loaded
   \<and> status_code (fst (generate_audio loaded ''u1'' (text_only_request loaded ''hello'') empty_disk)) = 500
   \<and> speaker_wav custom_voice_request \<noteq> DEFAULT_SPEAKER_PATH loaded
   \<and> status_code (fst (generate_audio loaded ''u1'' custom_voice_request disk)) = 400"
proof -
  have m: "tts_model loaded = Some writing_model" by (simp add: loaded_def)
  have t1: "text' (text_only_request loaded ''hello'') \<noteq> []" by (simp add: text_only_request_def)
  have t2: "text' custom_voice_request \<noteq> []" by (simp add: custom_voice_request_def)
  have e1: "\<not> path_exists empty_disk (speaker_wav (text_only_request loaded ''hello''))"
    by (simp add: path_exists_def empty_disk_def)
  have e2: "\<not> path_exists disk (speaker_wav custom_voice_request)"
    by (simp add: path_exists_def disk_def custom_voice_request_def)
  have d1: "speaker_wav (text_only_request loaded ''hello'') = DEFAULT_SPEAKER_PATH loaded"
    by (simp add: text_only_request_def)
  have d2: "speaker_wav custom_voice_request \<noteq> DEFAULT_SPEAKER_PATH loaded"
    by (simp add: custom_voice_request_def loaded_paths)
  from missing_speaker_rejected [OF m t1 e1, of "''u1''"] missing_speaker_rejected [OF m t2 e2, of "''u1''"] d1 d2
  show ?thesis by simp
qed

text \<open>
  C6. A request that passes the three checks and whose synthesis call raises, or
  whose synthesis returns and the read of the artifact raises, or whose read returns
  and the removal raises, is answered 500 with the message of that exception as the
  detail, unchanged.
\<close>

theorem synthesis_exception_reported:
  assumes "tts_model svc = Some model" and "text' request \<noteq> []"
    and "path_exists fs (speaker_wav request)"
    and "tts_to_file model (text' request) (output_path svc uuid4) (speaker_wav request)
           (language request) fs = (r, fs1)"
    and "r = Raised e
         \<or> (r = Returned () \<and> open_read fs1 (output_path svc uuid4) = Raised e)
         \<or> (r = Returned () \<and> open_read fs1 (output_path svc uuid4) = Returned audio_data
              \<and> fst (os_remove fs1 (output_path svc uuid4)) = Raised e)"
  shows "fst (generate_audio svc uuid4 request fs) = HTTPException 500 e
         \<and> status_code (fst (generate_audio svc uuid4 request fs)) = 500"
proof -
  have "fst (synthesize model svc uuid4 request fs) = Raised e"
    using assms(5) unfolding synthesize_cases [OF assms(4)]
    by (auto split: prod.splits outcome.splits)
  then show ?thesis
    unfolding generate_audio_validated [OF assms(1-3)]
    by (auto split: prod.splits outcome.splits)
qed

theorem synthesis_exception_reported_witness:
  "fst (generate_audio loaded_failing ''u1'' (text_only_request loaded ''hello'') disk)
     = HTTPException 500 ''CUDA out of memory''
   \<and> fst (generate_audio loaded ''u1'' (text_only_request loaded ''hello'') unreadable_disk)
     = HTTPException 500 ''[Errno 13] Permission denied''
   \<and> fst (generate_audio loaded ''u1'' (text_only_request loaded ''hello'') undeletable_disk)
     = HTTPException 500 ''[Errno 13] Permission denied''"
proof -
  let ?req = "text_only_request loaded ''hello''"
  let ?out = "''/srv/output/u1.wav''"
  have t: "text' ?req \<noteq> []" by (simp add: hello_request)
  have m1: "tts_model loaded_failing = Some failing_model" by (simp add: loaded_failing_def)
  have m2: "tts_model loaded = Some writing_model" by (simp add: loaded_def)
  have e1: "path_exists disk (speaker_wav ?req)"
    by (simp add: hello_request path_exists_def disk_def)
  have e2: "path_exists unreadable_disk (speaker_wav ?req)"
    by (simp add: hello_request path_exists_def unreadable_disk_def disk_def)
  have e3: "path_exists undeletable_disk (speaker_wav ?req)"
    by (simp add: hello_request path_exists_def undeletable_disk_def disk_def)
  have c1: "tts_to_file failing_model (text' ?req) (output_path loaded_failing ''u1'')
              (speaker_wav ?req) (language ?req) disk
            = (Raised ''CUDA out of memory'', disk\<lparr>files := (files disk)(?out \<mapsto> [0x52])\<rparr>)"
    by (simp add: failing_model_def loaded_paths)
  have c2: "tts_to_file writing_model (text' ?req) (output_path loaded ''u1'')
              (speaker_wav ?req) (language ?req) unreadable_disk
            = (Returned (), unreadable_disk\<lparr>files := (files unreadable_disk)(?out \<mapsto> [0x52, 0x49, 0x46, 0x46])\<rparr>)"
    by (simp add: writing_model_def loaded_paths)
  have c3: "tts_to_file writing_model (text' ?req) (output_path loaded ''u1'')
              (speaker_wav ?req) (language ?req) undeletable_disk
            = (Returned (), undeletable_disk\<lparr>files := (files undeletable_disk)(?out \<mapsto> [0x52, 0x49, 0x46, 0x46])\<rparr>)"
    by (simp add: writing_model_def loaded_paths)
  have r2: "open_read (unreadable_disk\<lparr>files := (files unreadable_disk)(?out \<mapsto> [0x52, 0x49, 0x46, 0x46])\<rparr>)
              (output_path loaded ''u1'') = Raised ''[Errno 13] Permission denied''"
    by (simp add: open_read_def unreadable_disk_def loaded_paths)
  have r3: "open_read (undeletable_disk\<lparr>files := (files undeletable_disk)(?out \<mapsto> [0x52, 0x49, 0x46, 0x46])\<rparr>)
              (output_path loaded ''u1'') = Returned [0x52, 0x49, 0x46, 0x46]"
    by (simp add: open_read_def undeletable_disk_def disk_def loaded_paths)
  have d3: "fst (os_remove (undeletable_disk\<lparr>files := (files undeletable_disk)(?out \<mapsto> [0x52, 0x49, 0x46, 0x46])\<rparr>)
              (output_path loaded ''u1'')) = Raised ''[Errno 13] Permission denied''"
    by (simp add: os_remove_def undeletable_disk_def loaded_paths)
  from synthesis_exception_reported [OF m1 t e1 c1, of "''CUDA out of memory''"]
       synthesis_exception_reported [OF m2 t e2 c2, of "''[Errno 13] Permission denied''"] r2
       synthesis_exception_reported [OF m2 t e3 c3, of "''[Errno 13] Permission denied''" "[0x52, 0x49, 0x46, 0x46]"] r3 d3
  show ?thesis by simp
qed

text \<open>
  C7. For a request that passes the three checks, with \<open>fs1\<close> the filesystem the
  synthesis call leaves: an audio response means that synthesis returned, that the
  artifact existed with exactly the bytes of the response body, and that the handler
  returns \<open>fs1\<close> without the artifact. When synthesis raises, or returns and the read
  raises, the handler returns \<open>fs1\<close> itself: nothing is removed, and an artifact that
  synthesis wrote stays on disk. The audio response is given whenever synthesis, read
  and removal all return. The artifact is named by the uuid drawn for the request:
  another uuid names another path, and whatever the outcome the handler leaves the
  file at that path as synthesis left it.
\<close>

theorem artifact_lifecycle:
  assumes "tts_model svc = Some model" and "text' request \<noteq> []"
    and "path_exists fs (speaker_wav request)"
    and "tts_to_file model (text' request) (output_path svc uuid4) (speaker_wav request)
           (language request) fs = (r, fs1)"
  shows "(\<forall>audio_data media_type.
            fst (generate_audio svc uuid4 request fs) = Response audio_data media_type
            \<longrightarrow> r = Returned ()
                \<and> files fs1 (output_path svc uuid4) = Some audio_data
                \<and> snd (generate_audio svc uuid4 request fs)
                    = fs1\<lparr>files := (files fs1)(output_path svc uuid4 := None)\<rparr>
                \<and> files (snd (generate_audio svc uuid4 request fs)) (output_path svc uuid4) = None)
       \<and> (\<forall>e. r = Raised e \<longrightarrow> snd (generate_audio svc uuid4 request fs) = fs1)
       \<and> (\<forall>e. r = Returned () \<and> open_read fs1 (output_path svc uuid4) = Raised e
              \<longrightarrow> snd (generate_audio svc uuid4 request fs) = fs1)
       \<and> (\<forall>audio_data.
            r = Returned () \<and> open_read fs1 (output_path svc uuid4) = Returned audio_data
            \<and> fst (os_remove fs1 (output_path svc uuid4)) = Returned ()
            \<longrightarrow> fst (generate_audio svc uuid4 request fs) = Response audio_data ''audio/wav'')
       \<and> (\<forall>other. is_uuid_str uuid4 \<and> is_uuid_str other \<and> other \<noteq> uuid4
            \<longrightarrow> output_path svc other \<noteq> output_path svc uuid4
                \<and> files (snd (generate_audio svc uuid4 request fs)) (output_path svc other)
                    = files fs1 (output_path svc other))"
proof -
  note gen = generate_audio_validated [OF assms(1-3), of uuid4]
  note syn = synthesize_cases [OF assms(4)]
  have success: "r = Returned ()
                \<and> files fs1 (output_path svc uuid4) = Some audio_data
                \<and> snd (generate_audio svc uuid4 request fs)
                    = fs1\<lparr>files := (files fs1)(output_path svc uuid4 := None)\<rparr>
                \<and> files (snd (generate_audio svc uuid4 request fs)) (output_path svc uuid4) = None"
    if ok: "fst (generate_audio svc uuid4 request fs) = Response audio_data media_type"
    for audio_data media_type
  proof -
    from ok have r: "r = Returned ()"
      unfolding gen syn by (cases r) (auto split: prod.splits outcome.splits)
    from ok r have rd: "open_read fs1 (output_path svc uuid4) = Returned audio_data"
      unfolding gen syn by (auto split: prod.splits outcome.splits)
    from ok r rd have rm: "fst (os_remove fs1 (output_path svc uuid4)) = Returned ()"
      unfolding gen syn by (auto split: prod.splits outcome.splits)
    from r rd rm have fin: "snd (generate_audio svc uuid4 request fs) = snd (os_remove fs1 (output_path svc uuid4))"
      unfolding gen syn by (auto split: prod.splits outcome.splits)
    from fin os_remove_returns [OF rm] open_read_returns [OF rd] r show ?thesis by simp
  qed
  have synth_raises: "snd (generate_audio svc uuid4 request fs) = fs1" if "r = Raised e" for e
    using that unfolding gen syn by simp
  have read_raises: "snd (generate_audio svc uuid4 request fs) = fs1"
    if "r = Returned () \<and> open_read fs1 (output_path svc uuid4) = Raised e" for e
    using that unfolding gen syn by simp
  have all_return: "fst (generate_audio svc uuid4 request fs) = Response audio_data ''audio/wav''"
    if "r = Returned () \<and> open_read fs1 (output_path svc uuid4) = Returned audio_data
        \<and> fst (os_remove fs1 (output_path svc uuid4)) = Returned ()" for audio_data
    using that unfolding gen syn by (auto split: prod.splits outcome.splits)
  have frame: "files (snd (generate_audio svc uuid4 request fs)) p = files fs1 p"
    if "p \<noteq> output_path svc uuid4" for p
    unfolding gen syn using os_remove_frame [OF that, of fs1]
    by (auto split: prod.splits outcome.splits)
  have own_name: "output_path svc other \<noteq> output_path svc uuid4
                \<and> files (snd (generate_audio svc uuid4 request fs)) (output_path svc other)
                    = files fs1 (output_path svc other)"
    if "is_uuid_str uuid4 \<and> is_uuid_str other \<and> other \<noteq> uuid4" for other
  proof -
    from that output_path_inj [of other uuid4 svc]
    have "output_path svc other \<noteq> output_path svc uuid4" by blast
    with frame show ?thesis by blast
  qed
  from success synth_raises read_raises all_return own_name show ?thesis by blast
qed

theorem artifact_lifecycle_witness:
  "fst (generate_audio loaded ''u1'' (text_only_request loaded ''hello'') disk)
     = Response [0x52, 0x49, 0x46, 0x46] ''audio/wav''
   \<and> files (snd (generate_audio loaded ''u1'' (text_only_request loaded ''hello'') disk))
       ''/srv/output/u1.wav'' = None
   \<and> files (snd (generate_audio loaded_failing ''u1'' (text_only_request loaded ''hello'') disk))
       ''/srv/output/u1.wav'' = Some [0x52]
   \<and> files (snd (generate_audio loaded ''u1'' (text_only_request loaded ''hello'') unreadable_disk))
       ''/srv/output/u1.wav'' = Some [0x52, 0x49, 0x46, 0x46]
   \<and> output_path loaded uuid_b \<noteq> output_path loaded uuid_a
   \<and> files (snd (generate_audio loaded uuid_a (text_only_request loaded ''hello'') busy_disk))
       (output_path loaded uuid_b) = Some [7, 7]"
proof -
  let ?req = "text_only_request loaded ''hello''"
  let ?out = "''/srv/output/u1.wav''"
  let ?wav = "[0x52, 0x49, 0x46, 0x46] :: bytes"
  have t: "text' ?req \<noteq> []" by (simp add: hello_request)
  have m1: "tts_model loaded_failing = Some failing_model" by (simp add: loaded_failing_def)
  have m2: "tts_model loaded = Some writing_model" by (simp add: loaded_def)
  have e1: "path_exists disk (speaker_wav ?req)"
    by (simp add: hello_request path_exists_def disk_def)
  have e2: "path_exists unreadable_disk (speaker_wav ?req)"
    by (simp add: hello_request path_exists_def unreadable_disk_def disk_def)
  have c0: "tts_to_file writing_model (text' ?req) (output_path loaded ''u1'')
              (speaker_wav ?req) (language ?req) disk
            = (Returned (), disk\<lparr>files := (files disk)(?out \<mapsto> ?wav)\<rparr>)"
    by (simp add: writing_model_def loaded_paths)
  have c1: "tts_to_file failing_model (text' ?req) (output_path loaded_failing ''u1'')
              (speaker_wav ?req) (language ?req) disk
            = (Raised ''CUDA out of memory'', disk\<lparr>files := (files disk)(?out \<mapsto> [0x52])\<rparr>)"
    by (simp add: failing_model_def loaded_paths)
  have c2: "tts_to_file writing_model (text' ?req) (output_path loaded ''u1'')
              (speaker_wav ?req) (language ?req) unreadable_disk
            = (Returned (), unreadable_disk\<lparr>files := (files unreadable_disk)(?out \<mapsto> ?wav)\<rparr>)"
    by (simp add: writing_model_def loaded_paths)
  have r2: "open_read (unreadable_disk\<lparr>files := (files unreadable_disk)(?out \<mapsto> ?wav)\<rparr>)
              (output_path loaded ''u1'') = Raised ''[Errno 13] Permission denied''"
    by (simp add: open_read_def unreadable_disk_def loaded_paths)
  have ok: "fst (generate_audio loaded ''u1'' ?req disk) = Response ?wav ''audio/wav''"
    by (simp add: generate_audio_def synthesize_def m2 hello_request loaded_paths writing_model_def
          path_exists_def open_read_def os_remove_def disk_def)
  from artifact_lifecycle [OF m2 t e1 c0] ok
  have "files (snd (generate_audio loaded ''u1'' ?req disk)) (output_path loaded ''u1'') = None"
    by blast
  moreover from artifact_lifecycle [OF m1 t e1 c1]
  have "snd (generate_audio loaded_failing ''u1'' ?req disk) = disk\<lparr>files := (files disk)(?out \<mapsto> [0x52])\<rparr>"
    by blast
  moreover from artifact_lifecycle [OF m2 t e2 c2] r2
  have "snd (generate_audio loaded ''u1'' ?req unreadable_disk)
          = unreadable_disk\<lparr>files := (files unreadable_disk)(?out \<mapsto> ?wav)\<rparr>"
    by blast
  moreover have "output_path loaded uuid_b \<noteq> output_path loaded uuid_a
       \<and> files (snd (generate_audio loaded uuid_a ?req busy_disk)) (output_path loaded uuid_b)
           = Some [7, 7]"
  proof -
    let ?fs1 = "busy_disk\<lparr>files := (files busy_disk)(output_path loaded uuid_a \<mapsto> ?wav)\<rparr>"
    have pa: "output_path loaded uuid_a = ''/srv/output/'' @ uuid_a @ ''.wav''"
      and pb: "output_path loaded uuid_b = ''/srv/output/'' @ uuid_b @ ''.wav''"
      by (simp_all add: output_path_def OUTPUT_DIR_def path_join_def loaded_def unloaded_def
            module_init_def uuid_a_def uuid_b_def)
    have e3: "path_exists busy_disk (speaker_wav ?req)"
      by (simp add: hello_request path_exists_def busy_disk_def disk_def uuid_b_def)
    have c3: "tts_to_file writing_model (text' ?req) (output_path loaded uuid_a)
                (speaker_wav ?req) (language ?req) busy_disk = (Returned (), ?fs1)"
      by (simp add: writing_model_def)
    have ua: "is_uuid_str uuid_a" and ub: "is_uuid_str uuid_b"
      by (simp_all add: is_uuid_str_def hex_digit_def uuid_a_def uuid_b_def)
    have ne: "uuid_b \<noteq> uuid_a"
      by (simp add: uuid_a_def uuid_b_def)
    from artifact_lifecycle [OF m2 t e3 c3] ua ub ne
    have "output_path loaded uuid_b \<noteq> output_path loaded uuid_a
          \<and> files (snd (generate_audio loaded uuid_a ?req busy_disk)) (output_path loaded uuid_b)
              = files ?fs1 (output_path loaded uuid_b)"
      by blast
    moreover have "files ?fs1 (output_path loaded uuid_b) = Some [7, 7]"
      unfolding pa pb by (simp add: busy_disk_def uuid_a_def uuid_b_def)
    ultimately show ?thesis by simp
  qed
  ultimately show ?thesis
    using ok by (simp add: loaded_paths)
qed

text \<open>
  C10, as stated, fails: a whitespace-only text passes the text check, but the request
  reaches synthesis only if the speaker path exists. With a missing custom speaker path
  the answer is still 400, from the third check.
\<close>

theorem whitespace_text_missing_speaker_gives_400:
  "isspace (text' custom_voice_request)
   \<and> tts_model loaded = Some writing_model
   \<and> fst (generate_audio loaded ''u1'' custom_voice_request disk)
       = HTTPException 400 ''Speaker wav file not found: /home/me/voice.wav''
   \<and> snd (generate_audio loaded ''u1'' custom_voice_request disk) = disk"
  by (simp add: isspace_def custom_voice_request_def loaded_def generate_audio_def path_exists_def
        disk_def DEFAULT_SPEAKER_PATH_def path_join_def unloaded_def module_init_def)

text \<open>
  C10, amended. With the model loaded, a whitespace-only text is not empty and is never
  answered with the 400 of the text check; when the speaker path exists as well, the
  request proceeds to synthesis, so the answer is the audio or the 500 of a failed
  synthesis, never 400.
\<close>

theorem whitespace_text_accepted:
  assumes "tts_model svc = Some model" and "isspace (text' request)"
  shows "text' request \<noteq> []
       \<and> fst (generate_audio svc uuid4 request fs) \<noteq> HTTPException 400 ''Text is required.''
       \<and> (path_exists fs (speaker_wav request) \<longrightarrow>
            generate_audio svc uuid4 request fs =
              (case synthesize model svc uuid4 request fs of
                 (Returned audio_data, fs') \<Rightarrow> (Response audio_data ''audio/wav'', fs')
               | (Raised e, fs') \<Rightarrow> (HTTPException 500 e, fs'))
            \<and> status_code (fst (generate_audio svc uuid4 request fs)) \<noteq> 400)"
proof -
  from assms(2) have t: "text' request \<noteq> []" by (simp add: isspace_def)
  have a: "fst (generate_audio svc uuid4 request fs) \<noteq> HTTPException 400 ''Text is required.''"
    using assms(1) t by (simp add: generate_audio_def split: prod.splits outcome.splits)
  have b: "generate_audio svc uuid4 request fs =
              (case synthesize model svc uuid4 request fs of
                 (Returned audio_data, fs') \<Rightarrow> (Response audio_data ''audio/wav'', fs')
               | (Raised e, fs') \<Rightarrow> (HTTPException 500 e, fs'))
            \<and> status_code (fst (generate_audio svc uuid4 request fs)) \<noteq> 400"
    if "path_exists fs (speaker_wav request)"
    unfolding generate_audio_validated [OF assms(1) t that]
    by (simp split: prod.splits outcome.splits)
  from t a b show ?thesis by blast
qed

theorem whitespace_text_accepted_witness:
  "isspace (text' (text_only_request loaded '' ''))
   \<and> fst (generate_audio loaded ''u1'' (text_only_request loaded '' '') disk)
       = Response [0x52, 0x49, 0x46, 0x46] ''audio/wav''"
proof -
  let ?req = "text_only_request loaded '' ''"
  have m: "tts_model loaded = Some writing_model" by (simp add: loaded_def)
  have sp: "isspace (text' ?req)" by (simp add: isspace_def text_only_request_def)
  have e: "path_exists disk (speaker_wav ?req)"
    by (simp add: text_only_request_def loaded_paths path_exists_def disk_def)
  have syn: "fst (synthesize writing_model loaded ''u1'' ?req disk) = Returned [0x52, 0x49, 0x46, 0x46]"
    by (simp add: synthesize_def text_only_request_def loaded_paths writing_model_def
          open_read_def os_remove_def disk_def)
  from whitespace_text_accepted [OF m sp, of "''u1''" disk] e
  have "generate_audio loaded ''u1'' ?req disk =
          (case synthesize writing_model loaded ''u1'' ?req disk of
             (Returned audio_data, fs') \<Rightarrow> (Response audio_data ''audio/wav'', fs')
           | (Raised e, fs') \<Rightarrow> (HTTPException 500 e, fs'))"
    by blast
  with syn sp show ?thesis
    by (simp split: prod.splits outcome.splits)
qed


section \<open>Startup and liveness\<close>

text \<open>
  C9. If loading raises, startup completes with the model handle unset and GET /health
  answers 503 with status "error"; if loading returns a model, GET /health answers 200
  with status "ok" and the device string selected at import, which startup does not
  change. Before startup has run, the handle is unset and the answer is 503.
\<close>

theorem startup_degradation:
  "(\<forall>e. load ''tts_models/multilingual/multi-dataset/xtts_v2'' (DEVICE svc) = Raised e
        \<longrightarrow> tts_model (lifespan load svc) = None
            \<and> health_check (lifespan load svc)
                = JSONResponse 503 [(''status'', ''error''), (''detail'', ''Model not loaded'')])
   \<and> (\<forall>model. load ''tts_models/multilingual/multi-dataset/xtts_v2'' (DEVICE svc) = Returned model
        \<longrightarrow> tts_model (lifespan load svc) = Some model
            \<and> health_check (lifespan load svc)
                = JSONResponse 200 [(''status'', ''ok''), (''device'', DEVICE svc), (''model'', ''xtts_v2'')])
   \<and> DEVICE (lifespan load svc) = DEVICE svc
   \<and> health_check (module_init cuda_available devices now dir)
       = JSONResponse 503 [(''status'', ''error''), (''detail'', ''Model not loaded'')]"
  by (simp add: lifespan_def health_check_def module_init_def split: outcome.splits)

theorem startup_degradation_witness:
  "tts_model (lifespan failing_load unloaded) = None
   \<and> status_code (health_check (lifespan failing_load unloaded)) = 503
   \<and> health_check (lifespan working_load unloaded)
       = JSONResponse 200 [(''status'', ''ok''), (''device'', ''cuda:1''), (''model'', ''xtts_v2'')]
   \<and> status_code (health_check unloaded) = 503"
proof -
  have f: "failing_load ''tts_models/multilingual/multi-dataset/xtts_v2'' (DEVICE unloaded)
             = Raised ''weights not found''"
    by (simp add: failing_load_def)
  have w: "working_load ''tts_models/multilingual/multi-dataset/xtts_v2'' (DEVICE unloaded)
             = Returned writing_model"
    by (simp add: working_load_def)
  have idx: "select_index three_gpus = 1"
    by (simp add: select_index_def three_gpus_def initial_selection_def current_capability_value
          str_nat.simps)
  have dev: "DEVICE unloaded = ''cuda:1''"
    by (simp add: unloaded_def module_init_def select_DEVICE_def idx str_nat.simps digit_char_def)
  from startup_degradation [of failing_load unloaded True three_gpus 1000 "''/srv''"] f
  have a: "tts_model (lifespan failing_load unloaded) = None
           \<and> health_check (lifespan failing_load unloaded)
               = JSONResponse 503 [(''status'', ''error''), (''detail'', ''Model not loaded'')]"
    by blast
  from startup_degradation [of working_load unloaded True three_gpus 1000 "''/srv''"] w
  have b: "health_check (lifespan working_load unloaded)
             = JSONResponse 200 [(''status'', ''ok''), (''device'', DEVICE unloaded), (''model'', ''xtts_v2'')]"
    by blast
  from startup_degradation [of working_load unloaded True three_gpus 1000 "''/srv''"]
  have c: "health_check unloaded
             = JSONResponse 503 [(''status'', ''error''), (''detail'', ''Model not loaded'')]"
    unfolding unloaded_def by blast
  from a b c dev show ?thesis by simp
qed


section \<open>The uptime string\<close>

lemma divmod_float_of_int:
  "divmod_float (of_int k) (of_int b) = (of_int (k div b), of_int (k mod b))"
proof -
  have fl: "\<lfloor>(of_int k :: real) / of_int b\<rfloor> = k div b"
    by (simp add: floor_divide_of_int_eq)
  have "(of_int k :: real) - of_int b * of_int (k div b) = of_int (k - b * (k div b))"
    by simp
  also have "k - b * (k div b) = k mod b"
    by (simp add: minus_mult_div_eq_mod)
  finally show ?thesis
    by (simp add: divmod_float_def fl)
qed

lemma divmod_float_seconds:
  "divmod_float x 60 = (of_int (\<lfloor>x\<rfloor> div 60), x - 60 * of_int (\<lfloor>x\<rfloor> div 60))"
proof -
  have "\<lfloor>x / real_of_int 60\<rfloor> = \<lfloor>x\<rfloor> div 60"
    by (rule floor_divide_real_eq_div) simp
  then show ?thesis by (simp add: divmod_float_def)
qed

lemma int_of_float_of_int: "int_of_float (of_int k) = k"
  by (simp add: int_of_float_def)

lemma int_of_float_seconds: "int_of_float (x - 60 * of_int (\<lfloor>x\<rfloor> div 60)) = \<lfloor>x\<rfloor> mod 60"
proof -
  have eq: "x - 60 * of_int (\<lfloor>x\<rfloor> div 60) = x - of_int (60 * (\<lfloor>x\<rfloor> div 60))" by simp
  have fl: "\<lfloor>x - of_int (60 * (\<lfloor>x\<rfloor> div 60))\<rfloor> = \<lfloor>x\<rfloor> - 60 * (\<lfloor>x\<rfloor> div 60)"
    by (rule floor_diff_of_int)
  have md: "\<lfloor>x\<rfloor> - 60 * (\<lfloor>x\<rfloor> div 60) = \<lfloor>x\<rfloor> mod 60"
    by (simp add: minus_mult_div_eq_mod)
  have "0 \<le> \<lfloor>x\<rfloor> mod 60" by simp
  with md have "60 * (\<lfloor>x\<rfloor> div 60) \<le> \<lfloor>x\<rfloor>" by linarith
  then have "of_int (60 * (\<lfloor>x\<rfloor> div 60)) \<le> (of_int \<lfloor>x\<rfloor> :: real)"
    unfolding of_int_le_iff .
  also have "\<dots> \<le> x" by simp
  finally have nonneg: "0 \<le> x - of_int (60 * (\<lfloor>x\<rfloor> div 60))" by simp
  show ?thesis
    unfolding eq int_of_float_def using nonneg fl md by simp
qed

lemma uptime_str_int:
  "uptime_str x =
     (if \<lfloor>x\<rfloor> div 60 div 60 div 24 > 0
      then str_int (\<lfloor>x\<rfloor> div 60 div 60 div 24) @ ''d '' @ str_int (\<lfloor>x\<rfloor> div 60 div 60 mod 24) @ ''h ''
           @ str_int (\<lfloor>x\<rfloor> div 60 mod 60) @ ''m '' @ str_int (\<lfloor>x\<rfloor> mod 60) @ ''s''
      else str_int (\<lfloor>x\<rfloor> div 60 div 60 mod 24) @ ''h ''
           @ str_int (\<lfloor>x\<rfloor> div 60 mod 60) @ ''m '' @ str_int (\<lfloor>x\<rfloor> mod 60) @ ''s'')"
proof -
  define s where "s = x - 60 * of_int (\<lfloor>x\<rfloor> div 60)"
  define q1 where "q1 = \<lfloor>x\<rfloor> div 60"
  define q2 where "q2 = q1 div 60"
  define q3 where "q3 = q2 div 24"
  have s1: "divmod_float x 60 = (of_int q1, s)"
    by (simp add: divmod_float_seconds q1_def s_def)
  have s2: "divmod_float (of_int q1) 60 = (of_int q2, of_int (q1 mod 60))"
    using divmod_float_of_int [of q1 60] by (simp add: q2_def)
  have s3: "divmod_float (of_int q2) 24 = (of_int q3, of_int (q2 mod 24))"
    using divmod_float_of_int [of q2 24] by (simp add: q3_def)
  have secs: "int_of_float s = \<lfloor>x\<rfloor> mod 60"
    unfolding s_def by (rule int_of_float_seconds)
  have "uptime_str x =
     (if q3 > 0
      then str_int q3 @ ''d '' @ str_int (q2 mod 24) @ ''h ''
           @ str_int (q1 mod 60) @ ''m '' @ str_int (\<lfloor>x\<rfloor> mod 60) @ ''s''
      else str_int (q2 mod 24) @ ''h ''
           @ str_int (q1 mod 60) @ ''m '' @ str_int (\<lfloor>x\<rfloor> mod 60) @ ''s'')"
    by (simp add: uptime_str_def s1 s2 s3 secs int_of_float_of_int)
  then show ?thesis
    by (simp only: q1_def q2_def q3_def)
qed

lemma str_int_nonneg: "0 \<le> k \<Longrightarrow> str_int k = str_nat (nat k)"
  by (simp add: str_int_def)

lemma uptime_examples:
  "uptime_str 3600 = ''1h 0m 0s''" "uptime_str 90000 = ''1d 1h 0m 0s''" "uptime_str 90061 = ''1d 1h 1m 1s''"
  by (simp_all add: uptime_str_int str_int_def str_nat.simps digit_char_def)

text \<open>
  A clock set back makes the difference negative; the day count is then \<open>- 1\<close>, the
  test \<open>d > 0\<close> fails and the short form is printed.
\<close>

lemma uptime_clock_set_back: "uptime_str (- 1) = ''23h 59m 59s''"
proof -
  have fl: "\<lfloor>- 1 :: real\<rfloor> = - 1"
    using floor_of_int [of "- 1", where ?'a = real] by simp
  have dm: "(- 1 :: int) div 60 = - 1" "(- 1 :: int) mod 60 = 59"
           "(- 1 :: int) div 24 = - 1" "(- 1 :: int) mod 24 = 23"
    by simp_all
  show ?thesis
    unfolding uptime_str_int fl dm
    by (simp add: str_int_def str_nat.simps digit_char_def)
qed

text \<open>
  C8. For an elapsed duration of \<open>x \<ge> 0\<close> seconds, with \<open>n\<close> its whole seconds, the
  string is "Hh Mm Ss" when \<open>n\<close> holds no whole day and "Dd Hh Mm Ss" otherwise, where
  D, H, M, S are the days, the hours below 24, the minutes below 60 and the seconds
  below 60 of \<open>n\<close>. 3600 seconds give "1h 0m 0s" and 90000 seconds "1d 1h 0m 0s".
\<close>

theorem uptime_format:
  assumes "0 \<le> x"
  shows "uptime_str x =
     (let n = nat \<lfloor>x\<rfloor>;
          hms = str_nat (n div 3600 mod 24) @ ''h '' @ str_nat (n div 60 mod 60) @ ''m ''
                @ str_nat (n mod 60) @ ''s''
      in if n div 86400 = 0 then hms else str_nat (n div 86400) @ ''d '' @ hms)
     \<and> uptime_str 3600 = ''1h 0m 0s''
     \<and> uptime_str 90000 = ''1d 1h 0m 0s''"
proof -
  define k where "k = \<lfloor>x\<rfloor>"
  from assms have k: "0 \<le> k" by (simp add: k_def)
  have q2: "k div 60 div 60 = k div 3600" and q3: "k div 3600 div 24 = k div 86400"
    by (simp_all add: div_mult2_eq [symmetric])
  have s: "str_int (k mod 60) = str_nat (nat k mod 60)"
    using k by (simp add: str_int_nonneg nat_mod_distrib)
  have m: "str_int (k div 60 mod 60) = str_nat (nat k div 60 mod 60)"
    using k by (simp add: str_int_nonneg nat_mod_distrib nat_div_distrib pos_imp_zdiv_nonneg_iff)
  have h: "str_int (k div 3600 mod 24) = str_nat (nat k div 3600 mod 24)"
    using k by (simp add: str_int_nonneg nat_mod_distrib nat_div_distrib pos_imp_zdiv_nonneg_iff)
  have d: "str_int (k div 86400) = str_nat (nat k div 86400)"
    using k by (simp add: str_int_nonneg nat_div_distrib pos_imp_zdiv_nonneg_iff)
  have nd: "nat (k div 86400) = nat k div 86400"
    by (simp add: nat_div_distrib)
  have "0 \<le> k div 86400"
    using k by (simp add: pos_imp_zdiv_nonneg_iff)
  with nd have pos: "k div 86400 > 0 \<longleftrightarrow> nat k div 86400 \<noteq> 0"
    by linarith
  have "uptime_str x =
     (let n = nat \<lfloor>x\<rfloor>;
          hms = str_nat (n div 3600 mod 24) @ ''h '' @ str_nat (n div 60 mod 60) @ ''m ''
                @ str_nat (n mod 60) @ ''s''
      in if n div 86400 = 0 then hms else str_nat (n div 86400) @ ''d '' @ hms)"
    unfolding uptime_str_int k_def [symmetric] Let_def q2 q3 s m h d pos by simp
  with uptime_examples(1,2) show ?thesis by simp
qed

theorem uptime_format_witness:
  "uptime_str (180123 / 2) = ''1d 1h 1m 1s'' \<and> uptime_str 59 = ''0h 0m 59s''"
proof -
  have a: "(0::real) \<le> 180123 / 2" and b: "(0::real) \<le> 59" by simp_all
  have fa: "nat \<lfloor>(180123::real) / 2\<rfloor> = 90061" by simp
  have fb: "nat \<lfloor>59::real\<rfloor> = 59" by simp
  from uptime_format [OF a] have "uptime_str (180123 / 2) = ''1d 1h 1m 1s''"
    unfolding fa by (simp add: Let_def str_nat.simps digit_char_def)
  moreover from uptime_format [OF b] have "uptime_str 59 = ''0h 0m 59s''"
    unfolding fb by (simp add: Let_def str_nat.simps digit_char_def)
  ultimately show ?thesis by simp
qed

end
